theory Spec2Isabelle
  imports Main
begin

section \<open>Mode resolver (convert\_modes.go)\<close>

text \<open>
  \<^verbatim>\<open>type Mode string\<close>: a mode is any Go string; the two named constants are
  \<^verbatim>\<open>DevMode = "dev"\<close> and \<^verbatim>\<open>ProdMode = "prod"\<close>. Go strings are byte
  sequences, as HOL's \<open>string\<close> is.
\<close>

type_synonym Mode = string

definition DevMode :: Mode where
  "DevMode = ''dev''"

definition ProdMode :: Mode where
  "ProdMode = ''prod''"

definition Mode_String :: "Mode \<Rightarrow> string" where
  "Mode_String m = m"

text \<open>
  \<^verbatim>\<open>type LogLevel int\<close> with \<^verbatim>\<open>iota\<close> constants 0..3. No arithmetic is done on a
  level, so the width of Go's \<^verbatim>\<open>int\<close> plays no role; every integer is a value of
  the type.
\<close>

type_synonym LogLevel = int

definition LevelDebug :: LogLevel where
  "LevelDebug = 0"

definition LevelInfo :: LogLevel where
  "LevelInfo = 1"

definition LevelWarn :: LogLevel where
  "LevelWarn = 2"

definition LevelError :: LogLevel where
  "LevelError = 3"

text \<open>The \<^verbatim>\<open>switch\<close> of \<^verbatim>\<open>ParseMode\<close>, case by case in the source's order.\<close>

definition ParseMode :: "string \<Rightarrow> Mode" where
  "ParseMode mode =
     (if mode = Mode_String DevMode then DevMode
      else if mode = Mode_String ProdMode then ProdMode
      else ProdMode)"

definition ConvertLoggerMode :: "Mode \<Rightarrow> LogLevel" where
  "ConvertLoggerMode mode =
     (if mode = DevMode then LevelDebug
      else if mode = ProdMode then LevelInfo
      else LevelInfo)"

section \<open>The backend the facade calls: log/slog, tint, os, runtime/debug\<close>

text \<open>
  The facade is glue over Go's \<^verbatim>\<open>log/slog\<close> and the \<^verbatim>\<open>tint\<close> handler. What
  it hands to them decides what is emitted, so the part of their documented behaviour
  that the facade relies on is written out here: how a variadic \<^verbatim>\<open>...any\<close> list
  is read as attributes, when a handler lets a record through, and that deriving a
  logger builds a new one. Time stamps and the rendered bytes are left out: a record is
  kept as the data that the renderer receives.
\<close>

subsection \<open>Values passed as \<^verbatim>\<open>any\<close>, and attributes\<close>

text \<open>
  An argument of type \<^verbatim>\<open>any\<close> is a string, a \<^verbatim>\<open>slog.Attr\<close>, or some other Go
  value (kept opaque, told apart by a number). An attribute is a key with a value; a
  value is a string, a group of attributes, or a wrapped \<^verbatim>\<open>any\<close>.
\<close>

datatype Value = StringValue string | GroupValue "Attr list" | AnyValue any
  and Attr = Attr (Attr_Key: string) (Attr_Value: Value)
  and any = GoString string | GoAttr Attr | GoOther nat

definition slog_String :: "string \<Rightarrow> string \<Rightarrow> Attr" where
  "slog_String key v = Attr key (StringValue v)"

text \<open>
  \<^verbatim>\<open>slog.Any(key, v)\<close> stores a string as a string value and wraps anything else.
\<close>

definition slog_Any :: "string \<Rightarrow> any \<Rightarrow> Attr" where
  "slog_Any key v = Attr key (case v of GoString s \<Rightarrow> StringValue s | _ \<Rightarrow> AnyValue v)"

definition badKey :: string where
  "badKey = ''!BADKEY''"

text \<open>
  How slog reads an argument list (\<^verbatim>\<open>argsToAttr\<close>, repeated until the list is
  used up): an \<^verbatim>\<open>Attr\<close> stands for itself; a string is a key and takes the next
  argument, whatever it is, as its value; a string in last place, and any other value,
  goes under the key \<^verbatim>\<open>!BADKEY\<close>.
\<close>

fun argsToAttrSlice :: "any list \<Rightarrow> Attr list" where
  "argsToAttrSlice [] = []"
| "argsToAttrSlice [GoString x] = [slog_String badKey x]"
| "argsToAttrSlice (GoString x # v # rest) = slog_Any x v # argsToAttrSlice rest"
| "argsToAttrSlice (GoAttr a # rest) = a # argsToAttrSlice rest"
| "argsToAttrSlice (GoOther n # rest) = slog_Any badKey (GoOther n) # argsToAttrSlice rest"

text \<open>
  A group with no attribute in it is dropped wherever slog builds a group, fills a record
  or attaches attributes to a handler, and neither handler prints one.
\<close>

fun isEmptyGroup :: "Value \<Rightarrow> bool" where
  "isEmptyGroup (GroupValue []) = True"
| "isEmptyGroup v = False"

definition omitEmptyGroups :: "Attr list \<Rightarrow> Attr list" where
  "omitEmptyGroups as = filter (\<lambda>a. \<not> isEmptyGroup (Attr_Value a)) as"

text \<open>\<^verbatim>\<open>slog.GroupValue(as...)\<close> and \<^verbatim>\<open>slog.Group(key, args...)\<close>.\<close>

definition slog_GroupValue :: "Attr list \<Rightarrow> Value" where
  "slog_GroupValue as = GroupValue (omitEmptyGroups as)"

definition slog_Group :: "string \<Rightarrow> any list \<Rightarrow> Attr" where
  "slog_Group key args = Attr key (slog_GroupValue (argsToAttrSlice args))"

subsection \<open>Sinks, handlers and the records they write\<close>

type_synonym slog_Level = int

definition slog_LevelDebug :: slog_Level where
  "slog_LevelDebug = - 4"

definition slog_LevelInfo :: slog_Level where
  "slog_LevelInfo = 0"

definition slog_LevelWarn :: slog_Level where
  "slog_LevelWarn = 4"

definition slog_LevelError :: slog_Level where
  "slog_LevelError = 8"

text \<open>An \<^verbatim>\<open>io.Writer\<close> here is a standard stream or an opened file (by descriptor).\<close>

datatype Writer = Stdout | Stderr | File nat

record tint_Options =
  Level :: slog_Level
  TimeFormat :: string

record slog_HandlerOptions =
  MinLevel :: slog_Level

definition time_Kitchen :: string where
  "time_Kitchen = ''3:04PM''"

text \<open>
  A handler is the colourised \<^verbatim>\<open>tint\<close> one or slog's JSON one; each holds its
  writer, its options and the attributes attached so far by \<^verbatim>\<open>WithAttrs\<close>. Of the
  options, only the fields the facade sets are kept; the others stay at their zero values.
  \<open>MinLevel\<close> is the field \<^verbatim>\<open>Level\<close> of \<^verbatim>\<open>slog.HandlerOptions\<close>. Both
  handlers let a record through when its level is at least the level of their options.
\<close>

datatype Handler =
    TintHandler Writer tint_Options "Attr list"
  | JSONHandler Writer slog_HandlerOptions "Attr list"

definition tint_NewHandler :: "Writer \<Rightarrow> tint_Options \<Rightarrow> Handler" where
  "tint_NewHandler out opts = TintHandler out opts []"

definition slog_NewJSONHandler :: "Writer \<Rightarrow> slog_HandlerOptions \<Rightarrow> Handler" where
  "slog_NewJSONHandler out opts = JSONHandler out opts []"

fun Handler_Enabled :: "Handler \<Rightarrow> slog_Level \<Rightarrow> bool" where
  "Handler_Enabled (TintHandler out opts pre) level = (Level opts \<le> level)"
| "Handler_Enabled (JSONHandler out opts pre) level = (MinLevel opts \<le> level)"

fun Handler_WithAttrs :: "Handler \<Rightarrow> Attr list \<Rightarrow> Handler" where
  "Handler_WithAttrs (TintHandler out opts pre) as =
     TintHandler out opts (pre @ omitEmptyGroups as)"
| "Handler_WithAttrs (JSONHandler out opts pre) as =
     JSONHandler out opts (pre @ omitEmptyGroups as)"

datatype Renderer = Pretty string | Structured

record Entry =
  renderer :: Renderer
  severity :: slog_Level
  message :: string
  carried :: "Attr list"

text \<open>
  What a handler writes for one record: the record's attributes follow the attached
  ones. The pretty renderer shows the time in its \<^verbatim>\<open>TimeFormat\<close>.
\<close>

fun Handler_Handle :: "Handler \<Rightarrow> slog_Level \<Rightarrow> string \<Rightarrow> Attr list \<Rightarrow> Writer \<times> Entry" where
  "Handler_Handle (TintHandler out opts pre) level m as =
     (out, \<lparr>renderer = Pretty (TimeFormat opts), severity = level, message = m, carried = pre @ as\<rparr>)"
| "Handler_Handle (JSONHandler out opts pre) level m as =
     (out, \<lparr>renderer = Structured, severity = level, message = m, carried = pre @ as\<rparr>)"

subsection \<open>Errors, panics, the operating system and the program state\<close>

text \<open>
  A non-nil Go \<^verbatim>\<open>error\<close> is a value with an identity and the text its
  \<^verbatim>\<open>Error()\<close> method returns; \<^verbatim>\<open>nil\<close> is \<open>None\<close>.
\<close>

datatype err_value = ErrValue nat string

fun err_Error :: "err_value \<Rightarrow> string" where
  "err_Error (ErrValue i text) = text"

type_synonym error = "err_value option"

datatype panic = Panic string | NilDereference

datatype open_flag = O_WRONLY | O_CREATE | O_APPEND

record OpenCall =
  path :: string
  flag :: "open_flag set"
  perm :: nat

record BuildInfo =
  GoVersion :: string

text \<open>
  What the process finds around it: the outcome of \<^verbatim>\<open>os.OpenFile\<close> (an error or
  the descriptor of the opened file) and of \<^verbatim>\<open>debug.ReadBuildInfo\<close> (\<open>None\<close>
  is the nil result). The flags of a call are the set of the bits that are or-ed together.
\<close>

record os_env =
  os_OpenFile :: "string \<Rightarrow> open_flag set \<Rightarrow> nat \<Rightarrow> err_value + nat"
  debug_ReadBuildInfo :: "BuildInfo option"

text \<open>\<^verbatim>\<open>slog.Logger\<close>: the facade only ever reaches its handler.\<close>

record slog_Logger =
  handler :: Handler

text \<open>
  \<^verbatim>\<open>type Slogger struct { logger *slog.Logger }\<close>. The field is unexported and
  \<^verbatim>\<open>InitLogger\<close>, \<^verbatim>\<open>With\<close> and \<^verbatim>\<open>WithOperation\<close>, the only places that set
  it, store a logger that slog has just built, so the field is never nil in an object of
  the heap below and is kept as the logger itself.
\<close>

record Slogger =
  logger :: slog_Logger

text \<open>
  The state: the \<^verbatim>\<open>Slogger\<close> objects allocated so far (a \<^verbatim>\<open>*Slogger\<close> is an
  index into this list), the calls made to the filesystem, and the records written, each
  with its sink, oldest first. A \<^verbatim>\<open>*slog.Logger\<close> is kept as a value: slog never
  changes a logger after building it.
\<close>

type_synonym ptr = nat

record world =
  heap :: "Slogger list"
  opened :: "OpenCall list"
  emitted :: "(Writer \<times> Entry) list"

text \<open>
  \<^verbatim>\<open>*l\<close> reads the object at \<open>l\<close>; a pointer to no object is nil, and reading
  through it panics. \<^verbatim>\<open>&newLogger\<close> of an escaping local is a fresh object.
\<close>

definition deref :: "world \<Rightarrow> ptr \<Rightarrow> panic + Slogger" where
  "deref w l = (if l < length (heap w) then Inr (heap w ! l) else Inl NilDereference)"

definition alloc :: "Slogger \<Rightarrow> world \<Rightarrow> ptr \<times> world" where
  "alloc s w = (length (heap w), w\<lparr>heap := heap w @ [s]\<rparr>)"

definition slog_New :: "Handler \<Rightarrow> slog_Logger" where
  "slog_New h = \<lparr>handler = h\<rparr>"

text \<open>
  \<^verbatim>\<open>(*slog.Logger).With\<close>: with no argument the logger itself, otherwise a copy whose
  handler has the arguments attached.
\<close>

definition Logger_With :: "slog_Logger \<Rightarrow> any list \<Rightarrow> slog_Logger" where
  "Logger_With lg args =
     (if args = [] then lg
      else lg\<lparr>handler := Handler_WithAttrs (handler lg) (argsToAttrSlice args)\<rparr>)"

text \<open>
  \<^verbatim>\<open>(*slog.Logger).log\<close>, behind \<^verbatim>\<open>Debug\<close>, \<^verbatim>\<open>Info\<close>, \<^verbatim>\<open>Warn\<close> and
  \<^verbatim>\<open>Error\<close>: nothing when the handler is not enabled for the level, else one record
  filled from the arguments (\<^verbatim>\<open>Record.Add\<close>) and handed to the handler. What the
  write to the sink returns is ignored by slog; \<open>emitted\<close> holds what was handed over.
\<close>

definition Logger_log :: "slog_Logger \<Rightarrow> slog_Level \<Rightarrow> string \<Rightarrow> any list \<Rightarrow> world \<Rightarrow> world" where
  "Logger_log lg level m args w =
     (if Handler_Enabled (handler lg) level
      then w\<lparr>emitted := emitted w @
             [Handler_Handle (handler lg) level m (omitEmptyGroups (argsToAttrSlice args))]\<rparr>
      else w)"

text \<open>
  \<^verbatim>\<open>fmt.Sprintf("error opening log file %s: %s", output, err)\<close>; \<^verbatim>\<open>%s\<close> prints
  an error by its \<^verbatim>\<open>Error()\<close> text.
\<close>

definition Sprintf_open_error :: "string \<Rightarrow> err_value \<Rightarrow> string" where
  "Sprintf_open_error output err = ''error opening log file '' @ output @ '': '' @ err_Error err"

text \<open>The octal literal \<^verbatim>\<open>0755\<close>.\<close>

definition perm_0755 :: nat where
  "perm_0755 = 7 * 64 + 5 * 8 + 5"

section \<open>Logger facade\<close>

definition getHandlerForOutput :: "Writer \<Rightarrow> LogLevel \<Rightarrow> tint_Options \<Rightarrow> Handler" where
  "getHandlerForOutput output mode options =
     (if mode = LevelDebug then tint_NewHandler output options
      else if mode = LevelInfo then slog_NewJSONHandler output \<lparr>MinLevel = slog_LevelInfo\<rparr>
      else if mode = LevelWarn then slog_NewJSONHandler output \<lparr>MinLevel = slog_LevelWarn\<rparr>
      else if mode = LevelError then slog_NewJSONHandler output \<lparr>MinLevel = slog_LevelError\<rparr>
      else tint_NewHandler output options)"

text \<open>
  \<^verbatim>\<open>InitLogger\<close>. The \<^verbatim>\<open>switch\<close> on \<open>output\<close> yields the handler or panics; the
  rest attaches the \<^verbatim>\<open>program_info\<close> group and allocates the \<^verbatim>\<open>Slogger\<close>. The
  result is the panic or the pointer, with the state reached.
\<close>

definition InitLogger :: "os_env \<Rightarrow> LogLevel \<Rightarrow> string \<Rightarrow> world \<Rightarrow> (panic + ptr) \<times> world" where
  "InitLogger env mode output w =
     (let options = \<lparr>Level = slog_LevelDebug, TimeFormat = time_Kitchen\<rparr>;
          (sel, w1) =
            (if output = ''stdout'' then (Inr (getHandlerForOutput Stdout mode options), w)
             else if output = ''stderr'' then (Inr (getHandlerForOutput Stderr mode options), w)
             else
               (case os_OpenFile env output {O_WRONLY, O_CREATE, O_APPEND} perm_0755 of
                  Inl err \<Rightarrow> Inl (Panic (Sprintf_open_error output err))
                | Inr file \<Rightarrow> Inr (getHandlerForOutput (File file) mode options),
                w\<lparr>opened := opened w @
                   [\<lparr>path = output, flag = {O_WRONLY, O_CREATE, O_APPEND}, perm = perm_0755\<rparr>]\<rparr>))
      in case sel of
           Inl p \<Rightarrow> (Inl p, w1)
         | Inr h \<Rightarrow>
             (let buildInfo =
                    (case debug_ReadBuildInfo env of
                       None \<Rightarrow> \<lparr>GoVersion = ''unknown''\<rparr>
                     | Some b \<Rightarrow> b);
                  (l, w2) =
                    alloc \<lparr>logger = Logger_With (slog_New h)
                             [GoAttr (slog_Group ''program_info''
                                [GoAttr (slog_String ''go_version'' (GoVersion buildInfo))])]\<rparr> w1
              in (Inr l, w2)))"

definition Debug :: "ptr \<Rightarrow> string \<Rightarrow> any list \<Rightarrow> world \<Rightarrow> (panic + unit) \<times> world" where
  "Debug l description attributes w =
     (case deref w l of
        Inl p \<Rightarrow> (Inl p, w)
      | Inr s \<Rightarrow> (Inr (), Logger_log (logger s) slog_LevelDebug description attributes w))"

definition Info :: "ptr \<Rightarrow> string \<Rightarrow> any list \<Rightarrow> world \<Rightarrow> (panic + unit) \<times> world" where
  "Info l description attributes w =
     (case deref w l of
        Inl p \<Rightarrow> (Inl p, w)
      | Inr s \<Rightarrow> (Inr (), Logger_log (logger s) slog_LevelInfo description attributes w))"

text \<open>
  \<^verbatim>\<open>Error\<close>: both branches append one attribute to the caller's list and log the
  result; \<^verbatim>\<open>append\<close> is list append on what the callee sees.
\<close>

definition Error :: "ptr \<Rightarrow> string \<Rightarrow> error \<Rightarrow> any list \<Rightarrow> world \<Rightarrow> (panic + unit) \<times> world" where
  "Error l description err attributes w =
     (case deref w l of
        Inl p \<Rightarrow> (Inl p, w)
      | Inr s \<Rightarrow>
          (case err of
             None \<Rightarrow>
               (let attrs = attributes @ [GoAttr (slog_String ''error'' ''nil'')]
                in (Inr (), Logger_log (logger s) slog_LevelError description attrs w))
           | Some e \<Rightarrow>
               (let attrs = attributes @ [GoAttr (slog_String ''error'' (err_Error e))]
                in (Inr (), Logger_log (logger s) slog_LevelError description attrs w))))"

definition Warn :: "ptr \<Rightarrow> string \<Rightarrow> any list \<Rightarrow> world \<Rightarrow> (panic + unit) \<times> world" where
  "Warn l description attributes w =
     (case deref w l of
        Inl p \<Rightarrow> (Inl p, w)
      | Inr s \<Rightarrow> (Inr (), Logger_log (logger s) slog_LevelWarn description attributes w))"

text \<open>
  \<^verbatim>\<open>newLogger := *l\<close> copies the struct; the assignment changes the copy's field;
  \<^verbatim>\<open>&newLogger\<close> is a new object.
\<close>

definition WithOperation :: "ptr \<Rightarrow> string \<Rightarrow> world \<Rightarrow> (panic + ptr) \<times> world" where
  "WithOperation l operation w =
     (case deref w l of
        Inl p \<Rightarrow> (Inl p, w)
      | Inr s \<Rightarrow>
          (let newLogger = s;
               newLogger = newLogger\<lparr>logger :=
                  Logger_With (logger newLogger) [GoAttr (slog_String ''operation'' operation)]\<rparr>;
               (l', w') = alloc newLogger w
           in (Inr l', w')))"

definition With :: "ptr \<Rightarrow> any list \<Rightarrow> world \<Rightarrow> (panic + ptr) \<times> world" where
  "With l attributes w =
     (case deref w l of
        Inl p \<Rightarrow> (Inl p, w)
      | Inr s \<Rightarrow>
          (let newLogger = s;
               newLogger = newLogger\<lparr>logger := Logger_With (logger newLogger) attributes\<rparr>;
               (l', w') = alloc newLogger w
           in (Inr l', w')))"

text \<open>The attribute builders do not read their receiver.\<close>

definition StringAttr :: "ptr \<Rightarrow> string \<Rightarrow> string \<Rightarrow> any" where
  "StringAttr l attribute v = GoAttr (slog_String attribute v)"

definition AnyAttr :: "ptr \<Rightarrow> string \<Rightarrow> any \<Rightarrow> any" where
  "AnyAttr l attribute v = GoAttr (slog_Any attribute v)"

definition LogAndReturnError ::
  "ptr \<Rightarrow> string \<Rightarrow> error \<Rightarrow> any list \<Rightarrow> world \<Rightarrow> (panic + error) \<times> world" where
  "LogAndReturnError l m err attributes w =
     (case Error l m err attributes w of
        (Inl p, w') \<Rightarrow> (Inl p, w')
      | (Inr u, w') \<Rightarrow> (Inr err, w'))"

section \<open>Reading aids for the statements below\<close>

text \<open>
  \<open>dangling args\<close>: slog's reading of \<open>args\<close> ends on a string that has no value
  after it. It follows the cases of \<open>argsToAttrSlice\<close>.
\<close>

fun dangling :: "any list \<Rightarrow> bool" where
  "dangling [] = False"
| "dangling [GoString x] = True"
| "dangling (GoString x # v # rest) = dangling rest"
| "dangling (GoAttr a # rest) = dangling rest"
| "dangling (GoOther n # rest) = dangling rest"

fun Handler_Writer :: "Handler \<Rightarrow> Writer" where
  "Handler_Writer (TintHandler out opts pre) = out"
| "Handler_Writer (JSONHandler out opts pre) = out"

text \<open>The sink that the logger at \<open>l\<close> writes to.\<close>

definition sink :: "world \<Rightarrow> ptr \<Rightarrow> Writer" where
  "sink w l = Handler_Writer (handler (logger (heap w ! l)))"

text \<open>Every logger of the state lets a record of error severity through.\<close>

definition errors_pass :: "world \<Rightarrow> bool" where
  "errors_pass w = list_all (\<lambda>s. Handler_Enabled (handler (logger s)) slog_LevelError) (heap w)"

text \<open>
  Concrete surroundings for the examples: a process that has allocated, opened and
  written nothing yet, on a system where only \<^verbatim>\<open>app.log\<close> can be opened and no
  build information is embedded.
\<close>

definition start :: world where
  "start = \<lparr>heap = [], opened = [], emitted = []\<rparr>"

definition env_example :: os_env where
  "env_example =
     \<lparr>os_OpenFile = (\<lambda>p f m. if p = ''app.log'' then Inr 3
                              else Inl (ErrValue 13 ''permission denied'')),
      debug_ReadBuildInfo = None\<rparr>"

text \<open>
  The state after \<^verbatim>\<open>InitLogger(LevelInfo, "stdout")\<close> at process start: one logger,
  at address 0, with the structured handler.
\<close>

definition example_world :: world where
  "example_world = snd (InitLogger env_example LevelInfo ''stdout'' start)"

section \<open>Mode resolution\<close>

text \<open>
  C1, as stated, asks that \<open>ParseMode\<close> return the production mode exactly for the
  input \<^verbatim>\<open>"prod"\<close> and also for every other input. The empty string is returned
  as production without being \<^verbatim>\<open>"prod"\<close>, so the second "if and only if" fails.
\<close>

theorem ParseMode_prod_iff_counterexample:
  "\<not> (ParseMode '''' = ProdMode \<longleftrightarrow> '''' = ''prod'')"
  by (simp add: ParseMode_def Mode_String_def DevMode_def ProdMode_def)

text \<open>
  C1 (amended): for every input string \<open>raw\<close>, \<open>ParseMode raw\<close> is the development
  mode if and only if \<open>raw\<close> is \<^verbatim>\<open>"dev"\<close>, and the production mode if and only if
  \<open>raw\<close> is anything else: \<^verbatim>\<open>"prod"\<close>, the empty string, or any other input. The
  function is total and has no failing branch.
\<close>

theorem ParseMode_dev_iff_else_prod:
  "(ParseMode raw = DevMode \<longleftrightarrow> raw = ''dev'') \<and>
   (ParseMode raw = ProdMode \<longleftrightarrow> raw \<noteq> ''dev'') \<and>
   ParseMode ''prod'' = ProdMode \<and> ParseMode '''' = ProdMode"
  by (simp add: ParseMode_def Mode_String_def DevMode_def ProdMode_def)

text \<open>
  C2: \<open>ConvertLoggerMode\<close> maps the development mode to the debug level, the
  production mode to the info level, and every other \<open>Mode\<close> value to the info level.
\<close>

theorem ConvertLoggerMode_table:
  "ConvertLoggerMode DevMode = LevelDebug \<and>
   ConvertLoggerMode ProdMode = LevelInfo \<and>
   (mode \<noteq> DevMode \<and> mode \<noteq> ProdMode \<longrightarrow> ConvertLoggerMode mode = LevelInfo)"
  by (simp add: ConvertLoggerMode_def DevMode_def ProdMode_def)

text \<open>C2 at the mode value \<^verbatim>\<open>"staging"\<close>, which is neither constant.\<close>

theorem ConvertLoggerMode_table_witness:
  "''staging'' \<noteq> DevMode \<and> ''staging'' \<noteq> ProdMode \<and> ConvertLoggerMode ''staging'' = LevelInfo"
  using ConvertLoggerMode_table [of "''staging''"]
  by (simp add: DevMode_def ProdMode_def)

text \<open>
  C9: for every string \<open>s\<close>, \<open>ConvertLoggerMode (ParseMode s)\<close> is the debug level if
  and only if \<open>s\<close> is \<^verbatim>\<open>"dev"\<close> and the info level otherwise; it is never the warn
  or the error level. So the handler chosen for it is the pretty one (for \<^verbatim>\<open>"dev"\<close>)
  or the structured one with the info floor.
\<close>

theorem resolve_composed:
  "ConvertLoggerMode (ParseMode s) = (if s = ''dev'' then LevelDebug else LevelInfo) \<and>
   (ConvertLoggerMode (ParseMode s) = LevelDebug \<longleftrightarrow> s = ''dev'') \<and>
   ConvertLoggerMode (ParseMode s) \<noteq> LevelWarn \<and>
   ConvertLoggerMode (ParseMode s) \<noteq> LevelError \<and>
   getHandlerForOutput out (ConvertLoggerMode (ParseMode s)) opts =
     (if s = ''dev'' then TintHandler out opts []
      else JSONHandler out \<lparr>MinLevel = slog_LevelInfo\<rparr> [])"
  by (simp add: ConvertLoggerMode_def ParseMode_def Mode_String_def DevMode_def ProdMode_def
      LevelDebug_def LevelInfo_def LevelWarn_def LevelError_def getHandlerForOutput_def
      tint_NewHandler_def slog_NewJSONHandler_def)

section \<open>Facts about the backend and the state\<close>

lemmas level_defs = LevelDebug_def LevelInfo_def LevelWarn_def LevelError_def

lemmas slog_level_defs =
  slog_LevelDebug_def slog_LevelInfo_def slog_LevelWarn_def slog_LevelError_def

lemma omitEmptyGroups_Nil: "omitEmptyGroups [] = []"
  by (simp add: omitEmptyGroups_def)

lemma omitEmptyGroups_Cons:
  "omitEmptyGroups (a # as) =
     (if isEmptyGroup (Attr_Value a) then omitEmptyGroups as else a # omitEmptyGroups as)"
  by (simp add: omitEmptyGroups_def)

lemma omitEmptyGroups_append:
  "omitEmptyGroups (xs @ ys) = omitEmptyGroups xs @ omitEmptyGroups ys"
  by (simp add: omitEmptyGroups_def)

text \<open>
  An attribute put behind a list that slog reads to its end without a key left over is
  read as itself, after the attributes of the list.
\<close>

lemma argsToAttrSlice_snoc_Attr:
  "\<not> dangling args \<Longrightarrow> argsToAttrSlice (args @ [GoAttr a]) = argsToAttrSlice args @ [a]"
  by (induction args rule: argsToAttrSlice.induct) simp_all

lemma deref_valid: "l < length (heap w) \<Longrightarrow> deref w l = Inr (heap w ! l)"
  by (simp add: deref_def)

lemma Handler_Enabled_WithAttrs:
  "Handler_Enabled (Handler_WithAttrs h as) level = Handler_Enabled h level"
  by (cases h) simp_all

lemma Handler_Enabled_Logger_With:
  "Handler_Enabled (handler (Logger_With lg args)) level = Handler_Enabled (handler lg) level"
  by (simp add: Logger_With_def Handler_Enabled_WithAttrs)

lemma Handler_Writer_WithAttrs: "Handler_Writer (Handler_WithAttrs h as) = Handler_Writer h"
  by (cases h) simp_all

lemma Handler_Writer_getHandlerForOutput:
  "Handler_Writer (getHandlerForOutput out mode opts) = out"
  by (simp add: getHandlerForOutput_def tint_NewHandler_def slog_NewJSONHandler_def)

lemma getHandlerForOutput_Enabled_error:
  "Handler_Enabled (getHandlerForOutput out mode \<lparr>Level = slog_LevelDebug, TimeFormat = tf\<rparr>)
     slog_LevelError"
  by (simp add: getHandlerForOutput_def tint_NewHandler_def slog_NewJSONHandler_def
      slog_level_defs)

text \<open>
  \<open>InitLogger\<close> in one equation: it panics exactly when a path is given and cannot be
  opened; otherwise it allocates one logger whose handler is the selected one with the
  \<^verbatim>\<open>program_info\<close> group attached.
\<close>

lemma InitLogger_eq:
  "InitLogger env mode output w =
     (if output = ''stdout'' \<or> output = ''stderr'' \<or>
         \<not> isl (os_OpenFile env output {O_WRONLY, O_CREATE, O_APPEND} perm_0755)
      then (Inr (length (heap w)),
            w\<lparr>heap := heap w @
                 [\<lparr>logger = \<lparr>handler = Handler_WithAttrs
                    (getHandlerForOutput
                       (if output = ''stdout'' then Stdout
                        else if output = ''stderr'' then Stderr
                        else File (projr (os_OpenFile env output
                               {O_WRONLY, O_CREATE, O_APPEND} perm_0755)))
                       mode \<lparr>Level = slog_LevelDebug, TimeFormat = time_Kitchen\<rparr>)
                    [Attr ''program_info'' (GroupValue [Attr ''go_version'' (StringValue
                       (case debug_ReadBuildInfo env of None \<Rightarrow> ''unknown''
                        | Some b \<Rightarrow> GoVersion b))])]\<rparr>\<rparr>],
              opened := if output = ''stdout'' \<or> output = ''stderr'' then opened w
                        else opened w @ [\<lparr>path = output, flag = {O_WRONLY, O_CREATE, O_APPEND},
                                          perm = perm_0755\<rparr>]\<rparr>)
      else (Inl (Panic (Sprintf_open_error output
                  (projl (os_OpenFile env output {O_WRONLY, O_CREATE, O_APPEND} perm_0755)))),
            w\<lparr>opened := opened w @ [\<lparr>path = output, flag = {O_WRONLY, O_CREATE, O_APPEND},
                                      perm = perm_0755\<rparr>]\<rparr>))"
  by (auto simp: InitLogger_def alloc_def Logger_With_def slog_New_def slog_Group_def
      slog_GroupValue_def slog_String_def omitEmptyGroups_Nil omitEmptyGroups_Cons Let_def
      split: option.splits sum.splits)

lemma example_world_eq:
  "example_world =
     \<lparr>heap = [\<lparr>logger = \<lparr>handler = JSONHandler Stdout \<lparr>MinLevel = slog_LevelInfo\<rparr>
        [Attr ''program_info'' (GroupValue [Attr ''go_version'' (StringValue ''unknown'')])]\<rparr>\<rparr>],
      opened = [], emitted = []\<rparr>"
  by (simp add: example_world_def env_example_def start_def InitLogger_eq
      getHandlerForOutput_def slog_NewJSONHandler_def level_defs
      omitEmptyGroups_Nil omitEmptyGroups_Cons)

subsection \<open>Every logger of the program lets errors through\<close>

lemma errors_pass_start: "errors_pass start"
  by (simp add: errors_pass_def start_def)

lemma errors_pass_nth:
  "errors_pass w \<Longrightarrow> l < length (heap w) \<Longrightarrow>
   Handler_Enabled (handler (logger (heap w ! l))) slog_LevelError"
  by (simp add: errors_pass_def list_all_length)

lemma errors_pass_InitLogger:
  "errors_pass w \<Longrightarrow> errors_pass (snd (InitLogger env mode output w))"
  by (simp add: InitLogger_eq errors_pass_def Handler_Enabled_WithAttrs
      getHandlerForOutput_Enabled_error)

lemma errors_pass_With:
  "errors_pass w \<Longrightarrow> errors_pass (snd (With l attributes w))"
proof (cases "l < length (heap w)")
  case True
  assume ok: "errors_pass w"
  from ok True have "Handler_Enabled (handler (logger (heap w ! l))) slog_LevelError"
    by (rule errors_pass_nth)
  with ok True show ?thesis
    by (simp add: With_def errors_pass_def alloc_def Let_def deref_def
        Handler_Enabled_Logger_With)
next
  case False
  assume "errors_pass w"
  with False show ?thesis by (simp add: With_def deref_def)
qed

lemma errors_pass_WithOperation:
  "errors_pass w \<Longrightarrow> errors_pass (snd (WithOperation l operation w))"
proof (cases "l < length (heap w)")
  case True
  assume ok: "errors_pass w"
  from ok True have "Handler_Enabled (handler (logger (heap w ! l))) slog_LevelError"
    by (rule errors_pass_nth)
  with ok True show ?thesis
    by (simp add: WithOperation_def errors_pass_def alloc_def Let_def deref_def
        Handler_Enabled_Logger_With)
next
  case False
  assume "errors_pass w"
  with False show ?thesis by (simp add: WithOperation_def deref_def)
qed

lemma errors_pass_emit:
  "errors_pass (Logger_log lg level m args w) = errors_pass w"
  by (simp add: errors_pass_def Logger_log_def)

section \<open>Construction\<close>

text \<open>
  C3: for every level and writer, \<open>getHandlerForOutput\<close> returns the pretty (tint)
  handler for the debug level; the structured (JSON) handler for the info, warn and
  error levels, whose floor is slog's level of the same name, so that it lets through
  exactly the records at or above it; and the pretty handler for every other level
  value. The logger that \<open>InitLogger\<close> returns holds the handler so selected for its
  sink, built from the options with the debug floor and the \<^verbatim>\<open>time.Kitchen\<close> format,
  with the \<^verbatim>\<open>program_info\<close> group attached.
\<close>

theorem getHandlerForOutput_selection:
  "getHandlerForOutput out LevelDebug opts = TintHandler out opts [] \<and>
   getHandlerForOutput out LevelInfo opts = JSONHandler out \<lparr>MinLevel = slog_LevelInfo\<rparr> [] \<and>
   getHandlerForOutput out LevelWarn opts = JSONHandler out \<lparr>MinLevel = slog_LevelWarn\<rparr> [] \<and>
   getHandlerForOutput out LevelError opts = JSONHandler out \<lparr>MinLevel = slog_LevelError\<rparr> [] \<and>
   (mode \<noteq> LevelDebug \<and> mode \<noteq> LevelInfo \<and> mode \<noteq> LevelWarn \<and> mode \<noteq> LevelError \<longrightarrow>
      getHandlerForOutput out mode opts = TintHandler out opts []) \<and>
   Handler_Enabled (getHandlerForOutput out LevelInfo opts) level = (slog_LevelInfo \<le> level) \<and>
   Handler_Enabled (getHandlerForOutput out LevelWarn opts) level = (slog_LevelWarn \<le> level) \<and>
   Handler_Enabled (getHandlerForOutput out LevelError opts) level = (slog_LevelError \<le> level) \<and>
   (fst (InitLogger env mode output w) = Inr l \<longrightarrow>
      handler (logger (heap (snd (InitLogger env mode output w)) ! l)) =
        Handler_WithAttrs
          (getHandlerForOutput (sink (snd (InitLogger env mode output w)) l) mode
             \<lparr>Level = slog_LevelDebug, TimeFormat = time_Kitchen\<rparr>)
          [Attr ''program_info'' (GroupValue [Attr ''go_version'' (StringValue
             (case debug_ReadBuildInfo env of None \<Rightarrow> ''unknown'' | Some b \<Rightarrow> GoVersion b))])])"
proof -
  have sel: "getHandlerForOutput out LevelDebug opts = TintHandler out opts [] \<and>
   getHandlerForOutput out LevelInfo opts = JSONHandler out \<lparr>MinLevel = slog_LevelInfo\<rparr> [] \<and>
   getHandlerForOutput out LevelWarn opts = JSONHandler out \<lparr>MinLevel = slog_LevelWarn\<rparr> [] \<and>
   getHandlerForOutput out LevelError opts = JSONHandler out \<lparr>MinLevel = slog_LevelError\<rparr> [] \<and>
   (mode \<noteq> LevelDebug \<and> mode \<noteq> LevelInfo \<and> mode \<noteq> LevelWarn \<and> mode \<noteq> LevelError \<longrightarrow>
      getHandlerForOutput out mode opts = TintHandler out opts [])"
    by (simp add: getHandlerForOutput_def tint_NewHandler_def slog_NewJSONHandler_def level_defs)
  have init: "fst (InitLogger env mode output w) = Inr l \<longrightarrow>
      handler (logger (heap (snd (InitLogger env mode output w)) ! l)) =
        Handler_WithAttrs
          (getHandlerForOutput (sink (snd (InitLogger env mode output w)) l) mode
             \<lparr>Level = slog_LevelDebug, TimeFormat = time_Kitchen\<rparr>)
          [Attr ''program_info'' (GroupValue [Attr ''go_version'' (StringValue
             (case debug_ReadBuildInfo env of None \<Rightarrow> ''unknown'' | Some b \<Rightarrow> GoVersion b))])]"
    by (auto simp: InitLogger_eq sink_def Handler_Writer_WithAttrs
        Handler_Writer_getHandlerForOutput)
  from sel init show ?thesis by simp
qed

text \<open>
  C3 at the level value 7, which is none of the four constants, with the output
  \<^verbatim>\<open>"stderr"\<close> at process start: the pretty handler on the standard error stream.
\<close>

theorem getHandlerForOutput_selection_witness:
  "(7::int) \<noteq> LevelDebug \<and> 7 \<noteq> LevelInfo \<and> 7 \<noteq> LevelWarn \<and> 7 \<noteq> LevelError \<and>
   getHandlerForOutput Stderr 7 \<lparr>Level = slog_LevelDebug, TimeFormat = time_Kitchen\<rparr> =
     TintHandler Stderr \<lparr>Level = slog_LevelDebug, TimeFormat = time_Kitchen\<rparr> [] \<and>
   fst (InitLogger env_example 7 ''stderr'' start) = Inr 0 \<and>
   handler (logger (heap (snd (InitLogger env_example 7 ''stderr'' start)) ! 0)) =
     TintHandler Stderr \<lparr>Level = slog_LevelDebug, TimeFormat = time_Kitchen\<rparr>
       [Attr ''program_info'' (GroupValue [Attr ''go_version'' (StringValue ''unknown'')])]"
  using getHandlerForOutput_selection
    [of Stderr "\<lparr>Level = slog_LevelDebug, TimeFormat = time_Kitchen\<rparr>" 7 0
        env_example "''stderr''" start 0]
  by (simp add: level_defs InitLogger_eq env_example_def start_def sink_def
      Handler_Writer_WithAttrs Handler_Writer_getHandlerForOutput
      omitEmptyGroups_Nil omitEmptyGroups_Cons)

text \<open>
  C4: \<open>InitLogger\<close> with the output \<^verbatim>\<open>"stdout"\<close> or \<^verbatim>\<open>"stderr"\<close> makes no call
  to the filesystem and the logger writes to that standard stream. With any other
  string it makes exactly one call: \<^verbatim>\<open>os.OpenFile\<close> on that string as the path, with
  the flags write-only, create and append, and the permission mode \<^verbatim>\<open>0755\<close> (all of
  read, write and execute for the owner); the logger writes to the file opened, and
  there is no logger when the call fails.
\<close>

theorem InitLogger_sink:
  "opened (snd (InitLogger env mode output w)) =
     (if output = ''stdout'' \<or> output = ''stderr'' then opened w
      else opened w @
        [\<lparr>path = output, flag = {O_WRONLY, O_CREATE, O_APPEND}, perm = perm_0755\<rparr>]) \<and>
   map_sum id (sink (snd (InitLogger env mode output w))) (fst (InitLogger env mode output w)) =
     (if output = ''stdout'' then Inr Stdout
      else if output = ''stderr'' then Inr Stderr
      else case os_OpenFile env output {O_WRONLY, O_CREATE, O_APPEND} perm_0755 of
             Inl err \<Rightarrow> Inl (Panic (Sprintf_open_error output err))
           | Inr file \<Rightarrow> Inr (File file)) \<and>
   perm_0755 = 493"
  by (auto simp: InitLogger_eq sink_def Handler_Writer_WithAttrs
      Handler_Writer_getHandlerForOutput perm_0755_def split: sum.splits)

text \<open>
  C5: \<open>InitLogger\<close> panics if and only if the output is neither \<^verbatim>\<open>"stdout"\<close> nor
  \<^verbatim>\<open>"stderr"\<close> and opening it fails. It then returns no logger and allocates none,
  and the panic message is \<^verbatim>\<open>error opening log file\<close>, the path, a colon and the
  text of the error that \<^verbatim>\<open>os.OpenFile\<close> returned.
\<close>

theorem InitLogger_fatal:
  "(isl (fst (InitLogger env mode output w)) \<longleftrightarrow>
      output \<noteq> ''stdout'' \<and> output \<noteq> ''stderr'' \<and>
      isl (os_OpenFile env output {O_WRONLY, O_CREATE, O_APPEND} perm_0755)) \<and>
   (output \<noteq> ''stdout'' \<and> output \<noteq> ''stderr'' \<and>
    os_OpenFile env output {O_WRONLY, O_CREATE, O_APPEND} perm_0755 = Inl err \<longrightarrow>
      InitLogger env mode output w =
        (Inl (Panic (''error opening log file '' @ output @ '': '' @ err_Error err)),
         w\<lparr>opened := opened w @
            [\<lparr>path = output, flag = {O_WRONLY, O_CREATE, O_APPEND}, perm = perm_0755\<rparr>]\<rparr>))"
  by (auto simp: InitLogger_eq Sprintf_open_error_def)

text \<open>
  C5 at the path \<^verbatim>\<open>nope.log\<close>, which the example system refuses to open.
\<close>

theorem InitLogger_fatal_witness:
  "''nope.log'' \<noteq> ''stdout'' \<and> ''nope.log'' \<noteq> ''stderr'' \<and>
   os_OpenFile env_example ''nope.log'' {O_WRONLY, O_CREATE, O_APPEND} perm_0755 =
     Inl (ErrValue 13 ''permission denied'') \<and>
   InitLogger env_example LevelInfo ''nope.log'' start =
     (Inl (Panic ''error opening log file nope.log: permission denied''),
      \<lparr>heap = [],
       opened = [\<lparr>path = ''nope.log'', flag = {O_WRONLY, O_CREATE, O_APPEND}, perm = 493\<rparr>],
       emitted = []\<rparr>)"
  using InitLogger_fatal
    [of env_example LevelInfo "''nope.log''" start "ErrValue 13 ''permission denied''"]
  by (simp add: env_example_def start_def perm_0755_def)

section \<open>Logging errors\<close>

text \<open>
  C6, as stated for every attribute list, fails on a list that ends on a key without a
  value: slog takes the appended \<^verbatim>\<open>error\<close> attribute as the value of that key.
  \<^verbatim>\<open>Error("boom", nil, "user")\<close> on a logger from \<^verbatim>\<open>InitLogger(LevelInfo, "stdout")\<close>
  emits a record with the attribute \<^verbatim>\<open>user\<close> and none under the key \<^verbatim>\<open>error\<close>.
\<close>

theorem Error_dangling_key_counterexample:
  "emitted (snd (Error 0 ''boom'' None [GoString ''user''] example_world)) =
     [(Stdout,
       \<lparr>renderer = Structured, severity = slog_LevelError, message = ''boom'',
        carried =
          [Attr ''program_info'' (GroupValue [Attr ''go_version'' (StringValue ''unknown'')]),
           Attr ''user'' (AnyValue (GoAttr (Attr ''error'' (StringValue ''nil''))))]\<rparr>)] \<and>
   ''error'' \<notin> Attr_Key `
     set (carried (snd (last (emitted
       (snd (Error 0 ''boom'' None [GoString ''user''] example_world))))))"
  by (simp add: example_world_eq Error_def deref_def Logger_log_def slog_level_defs
      slog_Any_def slog_String_def omitEmptyGroups_Nil omitEmptyGroups_Cons)

text \<open>
  C6 (amended): on a logger of a state in which every logger lets errors through (every
  state the facade builds is one), for every message and every attribute list that slog
  reads without a key left over at its end, \<open>Error\<close> does not panic and emits exactly
  one record, at error severity, with the message, carrying the logger's attached
  attributes, then those of the list, then one attribute under the key \<^verbatim>\<open>error\<close>:
  the string \<^verbatim>\<open>nil\<close> when \<open>err\<close> is nil and the text of \<open>err\<close> otherwise.
\<close>

theorem Error_appends_error_attr:
  assumes "errors_pass w" and "l < length (heap w)" and "\<not> dangling attributes"
  shows "Error l description err attributes w =
    (Inr (),
     w\<lparr>emitted := emitted w @
        [Handler_Handle (handler (logger (heap w ! l))) slog_LevelError description
           (omitEmptyGroups (argsToAttrSlice attributes) @
            [Attr ''error''
               (StringValue (case err of None \<Rightarrow> ''nil'' | Some e \<Rightarrow> err_Error e))])]\<rparr>)"
  using assms
  by (simp add: Error_def deref_valid Logger_log_def errors_pass_nth argsToAttrSlice_snoc_Attr
      slog_String_def omitEmptyGroups_append omitEmptyGroups_Nil omitEmptyGroups_Cons
      split: option.splits)

text \<open>
  C6 (amended) on the example logger, with the pair \<^verbatim>\<open>"user", "ann"\<close> and an error
  whose text is \<^verbatim>\<open>disk full\<close>.
\<close>

theorem Error_appends_error_attr_witness:
  "errors_pass example_world \<and> 0 < length (heap example_world) \<and>
   \<not> dangling [GoString ''user'', GoString ''ann''] \<and>
   Error 0 ''boom'' (Some (ErrValue 1 ''disk full'')) [GoString ''user'', GoString ''ann'']
     example_world =
     (Inr (),
      example_world\<lparr>emitted :=
        [(Stdout,
          \<lparr>renderer = Structured, severity = slog_LevelError, message = ''boom'',
           carried =
             [Attr ''program_info'' (GroupValue [Attr ''go_version'' (StringValue ''unknown'')]),
              Attr ''user'' (StringValue ''ann''),
              Attr ''error'' (StringValue ''disk full'')]\<rparr>)]\<rparr>)"
proof -
  have a: "errors_pass example_world"
    by (simp add: errors_pass_def example_world_eq slog_level_defs)
  have b: "0 < length (heap example_world)"
    by (simp add: example_world_eq)
  have c: "\<not> dangling [GoString ''user'', GoString ''ann'']"
    by simp
  from Error_appends_error_attr [OF a b c, of "''boom''" "Some (ErrValue 1 ''disk full'')"] a b c
  show ?thesis
    by (simp add: example_world_eq slog_Any_def omitEmptyGroups_Nil omitEmptyGroups_Cons)
qed

text \<open>
  C7: \<open>LogAndReturnError\<close> leaves the state that \<open>Error\<close> leaves for the same
  arguments, so it emits what \<open>Error\<close> emits, and it panics exactly when \<open>Error\<close>
  does; on a logger instance it returns the \<open>err\<close> it was given, nil or not.
\<close>

theorem LogAndReturnError_as_Error:
  "LogAndReturnError l m err attributes w =
     (map_sum id (\<lambda>u. err) (fst (Error l m err attributes w)),
      snd (Error l m err attributes w)) \<and>
   (l < length (heap w) \<longrightarrow> fst (LogAndReturnError l m err attributes w) = Inr err)"
  by (simp add: LogAndReturnError_def Error_def deref_def split: option.splits)

text \<open>C7 on the example logger, with a non-nil error.\<close>

theorem LogAndReturnError_as_Error_witness:
  "0 < length (heap example_world) \<and>
   fst (LogAndReturnError 0 ''boom'' (Some (ErrValue 1 ''disk full'')) [] example_world) =
     Inr (Some (ErrValue 1 ''disk full'')) \<and>
   snd (LogAndReturnError 0 ''boom'' (Some (ErrValue 1 ''disk full'')) [] example_world) =
     snd (Error 0 ''boom'' (Some (ErrValue 1 ''disk full'')) [] example_world)"
proof -
  note t = LogAndReturnError_as_Error
    [of 0 "''boom''" "Some (ErrValue 1 ''disk full'')" "[]" example_world]
  have b: "0 < length (heap example_world)"
    by (simp add: example_world_eq)
  from t b have r:
    "fst (LogAndReturnError 0 ''boom'' (Some (ErrValue 1 ''disk full'')) [] example_world) =
       Inr (Some (ErrValue 1 ''disk full''))"
    by blast
  from t have s:
    "snd (LogAndReturnError 0 ''boom'' (Some (ErrValue 1 ''disk full'')) [] example_world) =
       snd (Error 0 ''boom'' (Some (ErrValue 1 ''disk full'')) [] example_world)"
    by simp
  from b r s show ?thesis by blast
qed

section \<open>Derivation\<close>

text \<open>
  C8: on a logger instance \<open>l\<close>, \<open>With\<close> and \<open>WithOperation\<close> return a pointer to a
  new object, different from \<open>l\<close>. In the state \<open>w'\<close> that either of them leaves,
  every object that existed before is unchanged, the receiver among them, and nothing
  has been emitted or opened. \<open>Debug\<close>, \<open>Info\<close>, \<open>Warn\<close> and \<open>Error\<close> on the
  receiver then do what they do before the derivation, so the records they emit carry
  none of the child's extra attributes.
\<close>

theorem derive_leaves_receiver:
  assumes "l < length (heap w)"
    and "w' = snd (With l attributes w) \<or> w' = snd (WithOperation l operation w)"
  shows "fst (With l attributes w) = Inr (length (heap w)) \<and>
         fst (WithOperation l operation w) = Inr (length (heap w)) \<and>
         l \<noteq> length (heap w) \<and>
         length (heap w') = Suc (length (heap w)) \<and>
         take (length (heap w)) (heap w') = heap w \<and>
         heap w' ! l = heap w ! l \<and>
         emitted w' = emitted w \<and>
         opened w' = opened w \<and>
         Debug l m as w' = (Inr (), (snd (Debug l m as w))\<lparr>heap := heap w'\<rparr>) \<and>
         Info l m as w' = (Inr (), (snd (Info l m as w))\<lparr>heap := heap w'\<rparr>) \<and>
         Warn l m as w' = (Inr (), (snd (Warn l m as w))\<lparr>heap := heap w'\<rparr>) \<and>
         Error l m err as w' = (Inr (), (snd (Error l m err as w))\<lparr>heap := heap w'\<rparr>)"
proof -
  from assms(1) have wi: "With l attributes w =
      (Inr (length (heap w)),
       w\<lparr>heap := heap w @
         [(heap w ! l)\<lparr>logger := Logger_With (logger (heap w ! l)) attributes\<rparr>]\<rparr>)"
    by (simp add: With_def deref_def alloc_def Let_def)
  from assms(1) have wo: "WithOperation l operation w =
      (Inr (length (heap w)),
       w\<lparr>heap := heap w @
         [(heap w ! l)\<lparr>logger := Logger_With (logger (heap w ! l))
            [GoAttr (slog_String ''operation'' operation)]\<rparr>]\<rparr>)"
    by (simp add: WithOperation_def deref_def alloc_def Let_def)
  from assms(2) wi wo obtain s where w': "w' = w\<lparr>heap := heap w @ [s]\<rparr>"
    by auto
  from assms(1) have frame: "l \<noteq> length (heap w)" "length (heap w') = Suc (length (heap w))"
      "take (length (heap w)) (heap w') = heap w" "heap w' ! l = heap w ! l"
      "emitted w' = emitted w" "opened w' = opened w"
    by (simp_all add: w' nth_append)
  from assms(1) have d:
    "Debug l m as w' = (Inr (), (snd (Debug l m as w))\<lparr>heap := heap w'\<rparr>)"
    by (simp add: w' Debug_def deref_def nth_append Logger_log_def)
  from assms(1) have i:
    "Info l m as w' = (Inr (), (snd (Info l m as w))\<lparr>heap := heap w'\<rparr>)"
    by (simp add: w' Info_def deref_def nth_append Logger_log_def)
  from assms(1) have wa:
    "Warn l m as w' = (Inr (), (snd (Warn l m as w))\<lparr>heap := heap w'\<rparr>)"
    by (simp add: w' Warn_def deref_def nth_append Logger_log_def)
  from assms(1) have e:
    "Error l m err as w' = (Inr (), (snd (Error l m err as w))\<lparr>heap := heap w'\<rparr>)"
    by (simp add: w' Error_def deref_def nth_append Logger_log_def split: option.splits)
  from wi wo frame d i wa e show ?thesis by simp
qed

text \<open>
  C8 on the example logger: after \<^verbatim>\<open>With("user", "ann")\<close> the child, at address 1,
  emits the attribute \<^verbatim>\<open>user\<close> and the receiver, at address 0, still emits only
  \<^verbatim>\<open>program_info\<close>.
\<close>

theorem derive_leaves_receiver_witness:
  "0 < length (heap example_world) \<and>
   fst (With 0 [GoString ''user'', GoString ''ann''] example_world) = Inr 1 \<and>
   heap (snd (With 0 [GoString ''user'', GoString ''ann''] example_world)) ! 0 =
     heap example_world ! 0 \<and>
   Info 0 ''hi'' [] (snd (With 0 [GoString ''user'', GoString ''ann''] example_world)) =
     (Inr (),
      (snd (Info 0 ''hi'' [] example_world))
        \<lparr>heap := heap (snd (With 0 [GoString ''user'', GoString ''ann''] example_world))\<rparr>) \<and>
   emitted (snd (Info 0 ''hi'' [] example_world)) =
     [(Stdout,
       \<lparr>renderer = Structured, severity = slog_LevelInfo, message = ''hi'',
        carried =
          [Attr ''program_info'' (GroupValue [Attr ''go_version'' (StringValue ''unknown'')])]\<rparr>)] \<and>
   emitted (snd (Info 1 ''hi'' []
       (snd (With 0 [GoString ''user'', GoString ''ann''] example_world)))) =
     [(Stdout,
       \<lparr>renderer = Structured, severity = slog_LevelInfo, message = ''hi'',
        carried =
          [Attr ''program_info'' (GroupValue [Attr ''go_version'' (StringValue ''unknown'')]),
           Attr ''user'' (StringValue ''ann'')]\<rparr>)]"
proof -
  have b: "0 < length (heap example_world)"
    by (simp add: example_world_eq)
  have c: "snd (With 0 [GoString ''user'', GoString ''ann''] example_world) =
      snd (With 0 [GoString ''user'', GoString ''ann''] example_world) \<or>
    snd (With 0 [GoString ''user'', GoString ''ann''] example_world) =
      snd (WithOperation 0 ''sync'' example_world)"
    by simp
  have orig: "emitted (snd (Info 0 ''hi'' [] example_world)) =
     [(Stdout,
       \<lparr>renderer = Structured, severity = slog_LevelInfo, message = ''hi'',
        carried =
          [Attr ''program_info'' (GroupValue [Attr ''go_version'' (StringValue ''unknown'')])]\<rparr>)]"
    by (simp add: example_world_eq Info_def deref_def Logger_log_def omitEmptyGroups_Nil)
  have child: "emitted (snd (Info 1 ''hi'' []
        (snd (With 0 [GoString ''user'', GoString ''ann''] example_world)))) =
     [(Stdout,
       \<lparr>renderer = Structured, severity = slog_LevelInfo, message = ''hi'',
        carried =
          [Attr ''program_info'' (GroupValue [Attr ''go_version'' (StringValue ''unknown'')]),
           Attr ''user'' (StringValue ''ann'')]\<rparr>)]"
    by (simp add: example_world_eq With_def Info_def deref_def alloc_def Logger_With_def
        Logger_log_def slog_Any_def omitEmptyGroups_Nil omitEmptyGroups_Cons)
  have len: "length (heap example_world) = 1"
    by (simp add: example_world_eq)
  from derive_leaves_receiver [OF b c, of "''hi''" "[]" None] b orig child len
  show ?thesis by simp
qed

text \<open>
  C10: for every logger pointer and operation name, \<open>WithOperation\<close> is \<open>With\<close> on the
  one-element list made of \<open>StringAttr\<close> with the key \<^verbatim>\<open>operation\<close>: same result,
  same state, hence the same emissions from both. That element is the string attribute
  with the key \<^verbatim>\<open>operation\<close> and the name as its value.
\<close>

theorem WithOperation_is_With_StringAttr:
  "WithOperation l operation w = With l [StringAttr l ''operation'' operation] w \<and>
   StringAttr l ''operation'' operation = GoAttr (Attr ''operation'' (StringValue operation))"
proof
  show "WithOperation l operation w = With l [StringAttr l ''operation'' operation] w"
    by (simp add: WithOperation_def With_def StringAttr_def)
  show "StringAttr l ''operation'' operation = GoAttr (Attr ''operation'' (StringValue operation))"
    by (simp add: StringAttr_def slog_String_def)
qed

end
